theory Spec2Isabelle
  imports Complex_Main "HOL-Library.Word" "HOL-Library.Sublist"
begin

section \<open>JavaScript values seen by the route handlers\<close>

text \<open>
  The file under verification is \<^verbatim>\<open>src/app/api/entities/[id]/route.ts\<close>: the three
  handlers \<^verbatim>\<open>GET\<close>, \<^verbatim>\<open>PATCH\<close> and \<^verbatim>\<open>DELETE\<close> of one resource, and the schema
  \<^verbatim>\<open>updateEntitySchema\<close>.

  A JavaScript string is a sequence of UTF-16 code units; \<^verbatim>\<open>length\<close>, \<^verbatim>\<open>===\<close> and
  \<^verbatim>\<open>includes\<close> all work on code units. The literals of the source are ASCII and are
  written with \<open>js\<close>.
\<close>

type_synonym jsstring = "16 word list"

definition js :: "string \<Rightarrow> jsstring" where
  "js s = map (\<lambda>c. word_of_nat (of_char c)) s"

text \<open>\<^verbatim>\<open>s.includes(search)\<close>: \<open>search\<close> occurs in \<open>s\<close> as a contiguous run.\<close>

definition str_includes :: "jsstring \<Rightarrow> jsstring \<Rightarrow> bool" where
  "str_includes s search = sublist search s"

text \<open>
  What \<^verbatim>\<open>JSON.parse\<close> can produce. An object is kept as the list of its own properties;
  a property is read with \<open>map_of\<close>. The handlers never look at a number's value.
\<close>

datatype json =
    JNull
  | JBool bool
  | JNum real
  | JStr jsstring
  | JArr "json list"
  | JObj "(jsstring \<times> json) list"

subsection \<open>Issues reported by the validation library\<close>

text \<open>
  \<^verbatim>\<open>ZodError.errors\<close> is a list of issues. Of an issue the model keeps the code and
  the path of the offending field, and with the code the type received
  (\<open>invalid_type\<close>), the bound (\<open>too_small\<close>, \<open>too_big\<close>) or the value received
  and the options (\<open>invalid_enum_value\<close>). The human-readable text of an issue is
  not modelled.
\<close>

datatype zod_parsed_type =
  zt_undefined | zt_null | zt_boolean | zt_number | zt_string | zt_array | zt_object

datatype zod_issue_code =
    invalid_type zod_parsed_type
  | too_small nat
  | too_big nat
  | invalid_enum_value jsstring "jsstring list"

record zod_issue =
  code :: zod_issue_code
  path :: "jsstring list"

subsection \<open>Thrown values\<close>

text \<open>
  Anything can be thrown in JavaScript. The \<^verbatim>\<open>catch\<close> blocks make three observations
  on the value caught: \<^verbatim>\<open>error instanceof z.ZodError\<close>, \<^verbatim>\<open>error instanceof Error\<close> and
  \<^verbatim>\<open>error.message\<close>. A \<^verbatim>\<open>ZodError\<close> is an \<^verbatim>\<open>Error\<close> that also carries its issues.
\<close>

datatype thrown =
    JsError jsstring
  | ZodError "zod_issue list" jsstring
  | NotAnError json

fun instanceof_Error :: "thrown \<Rightarrow> bool" where
  "instanceof_Error (JsError m) = True"
| "instanceof_Error (ZodError issues m) = True"
| "instanceof_Error (NotAnError v) = False"

fun instanceof_ZodError :: "thrown \<Rightarrow> bool" where
  "instanceof_ZodError (ZodError issues m) = True"
| "instanceof_ZodError (JsError m) = False"
| "instanceof_ZodError (NotAnError v) = False"

fun message :: "thrown \<Rightarrow> jsstring" where
  "message (JsError m) = m"
| "message (ZodError issues m) = m"
| "message (NotAnError v) = []"

fun errors :: "thrown \<Rightarrow> zod_issue list" where
  "errors (ZodError issues m) = issues"
| "errors (JsError m) = []"
| "errors (NotAnError v) = []"

text \<open>
  The test of lines 42, 104 and 158:
  \<^verbatim>\<open>error instanceof Error && error.message.includes("Unauthorized")\<close>.
  \<open>message\<close> is only read when the first conjunct holds.
\<close>

definition unauthorized_marker :: "thrown \<Rightarrow> bool" where
  "unauthorized_marker error \<longleftrightarrow>
     instanceof_Error error \<and> str_includes (message error) (js ''Unauthorized'')"

section \<open>Sessions, tenants, entities, requests and responses\<close>

record user =
  user_id :: "jsstring option"

record session =
  session_user :: "user option"

text \<open>\<^verbatim>\<open>session?.user?.id\<close>, with \<open>None\<close> for \<^verbatim>\<open>undefined\<close>.\<close>

definition session_user_id :: "session option \<Rightarrow> jsstring option" where
  "session_user_id s =
     (case s of
        None \<Rightarrow> None
      | Some se \<Rightarrow> (case session_user se of None \<Rightarrow> None | Some u \<Rightarrow> user_id u))"

text \<open>Truthiness of a value that is a string or \<^verbatim>\<open>undefined\<close>: only \<^verbatim>\<open>""\<close> and
  \<^verbatim>\<open>undefined\<close> are falsy.\<close>

definition truthy :: "jsstring option \<Rightarrow> bool" where
  "truthy v = (case v of None \<Rightarrow> False | Some s \<Rightarrow> s \<noteq> [])"

record tenant_context =
  tenantId :: jsstring

text \<open>The entity is opaque to the handlers but for its \<^verbatim>\<open>id\<close>, which PATCH logs.\<close>

record entity =
  entity_id :: jsstring
  entity_fields :: "(jsstring \<times> json) list"

text \<open>
  A request: the outcome of \<^verbatim>\<open>request.json()\<close> (the parsed body, or what the body
  parser threw) and the query parameters, name and value decoded, in URL order.
  \<^verbatim>\<open>searchParams.get(name)\<close> is the first value of that name, or \<^verbatim>\<open>null\<close>.
\<close>

record request =
  json_outcome :: "thrown + json"
  searchParams :: "(jsstring \<times> jsstring) list"

record params =
  param_id :: jsstring

definition searchParams_get :: "request \<Rightarrow> jsstring \<Rightarrow> jsstring option" where
  "searchParams_get request name = map_of (searchParams request) name"

text \<open>The four shapes of response body the handlers build, and the response.\<close>

datatype response_body =
    Error_body jsstring
  | Validation_body jsstring "zod_issue list"
  | Data_body bool entity
  | Message_body bool jsstring

record response =
  status :: nat
  body :: response_body

section \<open>Collaborators and the trace of their calls\<close>

text \<open>
  The handlers call out to the session lookup, the tenant context, the entity service,
  the logger and the validation library. None of them is in the file; each is a field of
  the environment giving the outcome of the call: \<open>Inl\<close> what it threw (a rejected
  promise), \<open>Inr\<close> what it returned. Every handler calls each collaborator at most
  once, so an outcome per argument tuple is enough.
  \<open>zod_error_message\<close> is the text the library puts in the \<^verbatim>\<open>message\<close> of the
  \<^verbatim>\<open>ZodError\<close> it throws.
\<close>

record env =
  getServerSession :: "thrown + session option"
  getContext :: "thrown + tenant_context"
  getEntity :: "jsstring \<Rightarrow> jsstring \<Rightarrow> thrown + entity"
  updateEntity :: "jsstring \<Rightarrow> jsstring \<Rightarrow> jsstring \<Rightarrow> json \<Rightarrow> thrown + entity"
  deleteEntity :: "jsstring \<Rightarrow> jsstring \<Rightarrow> jsstring \<Rightarrow> thrown + unit"
  archiveEntity :: "jsstring \<Rightarrow> jsstring \<Rightarrow> jsstring \<Rightarrow> thrown + unit"
  zod_error_message :: "zod_issue list \<Rightarrow> jsstring"

text \<open>One event per call that leaves the handler, with the arguments passed.\<close>

datatype event =
    Call_getServerSession
  | Call_getContext
  | Call_request_json
  | Call_schema_parse json
  | Call_getEntity jsstring jsstring
  | Call_updateEntity jsstring jsstring jsstring json
  | Call_deleteEntity jsstring jsstring jsstring
  | Call_archiveEntity jsstring jsstring jsstring
  | Log_info jsstring jsstring "bool option"
  | Log_error jsstring thrown jsstring
  | Call_NextResponse_json response

text \<open>
  An asynchronous computation takes the trace so far and gives its outcome and the
  extended trace. \<open>await\<close> is sequencing (a rejection skips the rest), \<open>try_catch\<close>
  the \<^verbatim>\<open>try { } catch (error) { }\<close> block.
\<close>

type_synonym 'a io = "event list \<Rightarrow> (thrown + 'a) \<times> event list"

definition call :: "event \<Rightarrow> thrown + 'a \<Rightarrow> 'a io" where
  "call ev outcome tr = (outcome, tr @ [ev])"

definition await :: "'a io \<Rightarrow> ('a \<Rightarrow> 'b io) \<Rightarrow> 'b io" where
  "await m f tr =
     (case m tr of
        (Inl e, tr') \<Rightarrow> (Inl e, tr')
      | (Inr x, tr') \<Rightarrow> f x tr')"

definition try_catch :: "'a io \<Rightarrow> (thrown \<Rightarrow> 'a io) \<Rightarrow> 'a io" where
  "try_catch m handler tr =
     (case m tr of
        (Inl e, tr') \<Rightarrow> handler e tr'
      | (Inr x, tr') \<Rightarrow> (Inr x, tr'))"

text \<open>
  \<^verbatim>\<open>NextResponse.json(data, { status })\<close>; without the second argument the status
  is 200. The logger is a sink: its calls are recorded and return. Neither is taken to
  throw.
\<close>

definition NextResponse_json :: "response_body \<Rightarrow> nat \<Rightarrow> response io" where
  "NextResponse_json b st =
     call (Call_NextResponse_json \<lparr>status = st, body = b\<rparr>) (Inr \<lparr>status = st, body = b\<rparr>)"

definition logger_error :: "jsstring \<Rightarrow> thrown \<Rightarrow> jsstring \<Rightarrow> unit io" where
  "logger_error msg error entityId = call (Log_error msg error entityId) (Inr ())"

definition logger_info :: "jsstring \<Rightarrow> jsstring \<Rightarrow> bool option \<Rightarrow> unit io" where
  "logger_info msg entityId permanent = call (Log_info msg entityId permanent) (Inr ())"

section \<open>The update schema\<close>

text \<open>
  The schema of lines 10 to 15 is built from four combinators of the validation library
  (zod 3: the handler reads \<^verbatim>\<open>error.errors\<close>). The library is a dependency, not a part
  of the repository; the combinators below do what its \<^verbatim>\<open>_parse\<close> methods do on values
  that come from JSON. A schema takes the path of the value and the value (\<open>None\<close> for
  \<^verbatim>\<open>undefined\<close>, as a missing property reads) and gives the issues it raises and its
  output. Parsing succeeds when no issue was raised.
\<close>

type_synonym zod_type = "jsstring list \<Rightarrow> json option \<Rightarrow> zod_issue list \<times> json option"

fun getParsedType :: "json option \<Rightarrow> zod_parsed_type" where
  "getParsedType None = zt_undefined"
| "getParsedType (Some JNull) = zt_null"
| "getParsedType (Some (JBool b)) = zt_boolean"
| "getParsedType (Some (JNum n)) = zt_number"
| "getParsedType (Some (JStr s)) = zt_string"
| "getParsedType (Some (JArr xs)) = zt_array"
| "getParsedType (Some (JObj props)) = zt_object"

datatype string_check = Min nat | Max nat

text \<open>\<^verbatim>\<open>.min(n)\<close> fails when \<^verbatim>\<open>data.length < n\<close>, \<^verbatim>\<open>.max(n)\<close> when \<^verbatim>\<open>data.length > n\<close>.\<close>

fun string_check_issues :: "string_check \<Rightarrow> jsstring \<Rightarrow> jsstring list \<Rightarrow> zod_issue list" where
  "string_check_issues (Min n) s p =
     (if length s < n then [\<lparr>code = too_small n, path = p\<rparr>] else [])"
| "string_check_issues (Max n) s p =
     (if length s > n then [\<lparr>code = too_big n, path = p\<rparr>] else [])"

text \<open>\<^verbatim>\<open>z.string()\<close> with its checks, in the order they were chained.\<close>

definition z_string :: "string_check list \<Rightarrow> zod_type" where
  "z_string checks p input =
     (case input of
        Some (JStr s) \<Rightarrow> (concat (map (\<lambda>c. string_check_issues c s p) checks), Some (JStr s))
      | _ \<Rightarrow> ([\<lparr>code = invalid_type (getParsedType input), path = p\<rparr>], None))"

text \<open>\<^verbatim>\<open>z.enum([...])\<close>.\<close>

definition z_enum :: "jsstring list \<Rightarrow> zod_type" where
  "z_enum vals p input =
     (case input of
        Some (JStr s) \<Rightarrow>
          (if s \<in> set vals then ([], Some (JStr s))
           else ([\<lparr>code = invalid_enum_value s vals, path = p\<rparr>], None))
      | _ \<Rightarrow> ([\<lparr>code = invalid_type (getParsedType input), path = p\<rparr>], None))"

text \<open>\<^verbatim>\<open>.optional()\<close>: \<^verbatim>\<open>undefined\<close> passes, anything else goes to the inner schema.\<close>

definition z_optional :: "zod_type \<Rightarrow> zod_type" where
  "z_optional inner p input = (case input of None \<Rightarrow> ([], None) | Some v \<Rightarrow> inner p input)"

text \<open>
  \<^verbatim>\<open>z.object(shape)\<close> in its default mode: every key of the shape is read from the data
  and validated, all issues are collected in the order of the shape, keys outside the
  shape are dropped, and the output has a key of the shape only when its value is
  defined.
\<close>

definition z_object :: "(jsstring \<times> zod_type) list \<Rightarrow> zod_type" where
  "z_object shape p input =
     (case input of
        Some (JObj props) \<Rightarrow>
          (let results = map (\<lambda>(key, schema). (key, schema (p @ [key]) (map_of props key))) shape;
               issues = concat (map (\<lambda>(key, r). fst r) results)
           in (issues,
               if issues = [] then
                 Some (JObj (concat (map (\<lambda>(key, r).
                         case snd r of None \<Rightarrow> [] | Some v \<Rightarrow> [(key, v)]) results)))
               else None))
      | _ \<Rightarrow> ([\<lparr>code = invalid_type (getParsedType input), path = p\<rparr>], None))"

definition updateEntityShape :: "(jsstring \<times> zod_type) list" where
  "updateEntityShape =
     [(js ''name'', z_optional (z_string [Min 1, Max 255])),
      (js ''legalForm'', z_optional (z_string [])),
      (js ''status'',
         z_optional (z_enum [js ''ACTIVE'', js ''PENDING'', js ''ARCHIVED'', js ''SUSPENDED''])),
      (js ''activityCode'', z_optional (z_string []))]"

definition updateEntitySchema :: zod_type where
  "updateEntitySchema = z_object updateEntityShape"

text \<open>The keys of the schema.\<close>

definition schema_keys :: "jsstring list" where
  "schema_keys = map fst updateEntityShape"

text \<open>The outcome of validating \<open>data\<close>: the issues, or the output.\<close>

definition safeParse :: "zod_type \<Rightarrow> json \<Rightarrow> zod_issue list + json" where
  "safeParse schema data =
     (case schema [] (Some data) of
        (issues, Some v) \<Rightarrow> (if issues = [] then Inr v else Inl issues)
      | (issues, None) \<Rightarrow> Inl issues)"

text \<open>\<^verbatim>\<open>schema.parse(data)\<close> throws a \<^verbatim>\<open>ZodError\<close> holding the issues.\<close>

definition parse :: "env \<Rightarrow> zod_type \<Rightarrow> json \<Rightarrow> json io" where
  "parse env schema data =
     call (Call_schema_parse data)
       (case safeParse schema data of
          Inl issues \<Rightarrow> Inl (ZodError issues (zod_error_message env issues))
        | Inr v \<Rightarrow> Inr v)"

section \<open>The handlers\<close>

text \<open>
  Each handler is one \<^verbatim>\<open>try { } catch (error) { }\<close>; the two blocks are defined apart
  and joined by \<open>try_catch\<close>. Where the source reads \<^verbatim>\<open>session.user.id\<close> after the
  guard, the model reads \<open>the (session_user_id session)\<close>, in a branch where it is truthy.
\<close>

text \<open>\<^verbatim>\<open>GET\<close>, lines 21 to 55.\<close>

definition GET_try :: "env \<Rightarrow> request \<Rightarrow> params \<Rightarrow> response io" where
  "GET_try env request ps =
     await (call Call_getServerSession (getServerSession env)) (\<lambda>session.
       if \<not> truthy (session_user_id session) then
         NextResponse_json (Error_body (js ''Unauthorized'')) 401
       else
         await (call Call_getContext (getContext env)) (\<lambda>ctx.
         await (call (Call_getEntity (tenantId ctx) (param_id ps))
                  (getEntity env (tenantId ctx) (param_id ps))) (\<lambda>entity.
         NextResponse_json (Data_body True entity) 200)))"

definition GET_catch :: "params \<Rightarrow> thrown \<Rightarrow> response io" where
  "GET_catch ps error =
     (if unauthorized_marker error then
        NextResponse_json (Error_body (js ''Not found or unauthorized'')) 404
      else
        await (logger_error (js ''Error fetching entity'') error (param_id ps)) (\<lambda>_.
        NextResponse_json (Error_body (js ''Internal server error'')) 500))"

definition GET :: "env \<Rightarrow> request \<Rightarrow> params \<Rightarrow> response io" where
  "GET env request ps = try_catch (GET_try env request ps) (GET_catch ps)"

text \<open>\<^verbatim>\<open>PATCH\<close>, lines 61 to 117.\<close>

definition PATCH_try :: "env \<Rightarrow> request \<Rightarrow> params \<Rightarrow> response io" where
  "PATCH_try env request ps =
     await (call Call_getServerSession (getServerSession env)) (\<lambda>session.
       if \<not> truthy (session_user_id session) then
         NextResponse_json (Error_body (js ''Unauthorized'')) 401
       else
         await (call Call_getContext (getContext env)) (\<lambda>ctx.
         await (call Call_request_json (json_outcome request)) (\<lambda>body.
         await (parse env updateEntitySchema body) (\<lambda>input.
         await (call (Call_updateEntity (tenantId ctx) (param_id ps)
                        (the (session_user_id session)) input)
                  (updateEntity env (tenantId ctx) (param_id ps)
                        (the (session_user_id session)) input)) (\<lambda>entity.
         await (logger_info (js ''Entity updated successfully'') (entity_id entity) None) (\<lambda>_.
         NextResponse_json (Data_body True entity) 200))))))"

definition PATCH_catch :: "params \<Rightarrow> thrown \<Rightarrow> response io" where
  "PATCH_catch ps error =
     (if instanceof_ZodError error then
        NextResponse_json (Validation_body (js ''Validation error'') (errors error)) 400
      else if unauthorized_marker error then
        NextResponse_json (Error_body (js ''Not found or unauthorized'')) 404
      else
        await (logger_error (js ''Error updating entity'') error (param_id ps)) (\<lambda>_.
        NextResponse_json (Error_body (js ''Internal server error'')) 500))"

definition PATCH :: "env \<Rightarrow> request \<Rightarrow> params \<Rightarrow> response io" where
  "PATCH env request ps = try_catch (PATCH_try env request ps) (PATCH_catch ps)"

text \<open>\<^verbatim>\<open>DELETE\<close>, lines 123 to 171.\<close>

definition DELETE_try :: "env \<Rightarrow> request \<Rightarrow> params \<Rightarrow> response io" where
  "DELETE_try env request ps =
     await (call Call_getServerSession (getServerSession env)) (\<lambda>session.
       if \<not> truthy (session_user_id session) then
         NextResponse_json (Error_body (js ''Unauthorized'')) 401
       else
         await (call Call_getContext (getContext env)) (\<lambda>ctx.
         let permanent = (searchParams_get request (js ''permanent'') = Some (js ''true''))
         in
         await (if permanent then
                  call (Call_deleteEntity (tenantId ctx) (param_id ps)
                          (the (session_user_id session)))
                    (deleteEntity env (tenantId ctx) (param_id ps)
                          (the (session_user_id session)))
                else
                  call (Call_archiveEntity (tenantId ctx) (param_id ps)
                          (the (session_user_id session)))
                    (archiveEntity env (tenantId ctx) (param_id ps)
                          (the (session_user_id session)))) (\<lambda>_.
         await (logger_info (js ''Entity deleted/archived successfully'')
                  (param_id ps) (Some permanent)) (\<lambda>_.
         NextResponse_json
           (Message_body True
              (if permanent then js ''Entity deleted'' else js ''Entity archived''))
           200))))"

definition DELETE_catch :: "params \<Rightarrow> thrown \<Rightarrow> response io" where
  "DELETE_catch ps error =
     (if unauthorized_marker error then
        NextResponse_json (Error_body (js ''Not found or unauthorized'')) 404
      else
        await (logger_error (js ''Error deleting entity'') error (param_id ps)) (\<lambda>_.
        NextResponse_json (Error_body (js ''Internal server error'')) 500))"

definition DELETE :: "env \<Rightarrow> request \<Rightarrow> params \<Rightarrow> response io" where
  "DELETE env request ps = try_catch (DELETE_try env request ps) (DELETE_catch ps)"

text \<open>
  A handler is run on the empty trace: \<open>fst\<close> of the result is the response it resolves
  to, \<open>snd\<close> the calls it made, in order.
\<close>

section \<open>Reading a trace\<close>

text \<open>The calls to the entity service.\<close>

fun is_domain_call :: "event \<Rightarrow> bool" where
  "is_domain_call (Call_getEntity t i) = True"
| "is_domain_call (Call_updateEntity t i u x) = True"
| "is_domain_call (Call_deleteEntity t i u) = True"
| "is_domain_call (Call_archiveEntity t i u) = True"
| "is_domain_call ev = False"

definition domain_calls :: "event list \<Rightarrow> event list" where
  "domain_calls tr = filter is_domain_call tr"

text \<open>
  The step of a request an event belongs to: the auth check, the tenant resolution, the
  reading of the body, its validation, the domain call, logging, the construction of
  the response.
\<close>

fun step :: "event \<Rightarrow> nat" where
  "step Call_getServerSession = 0"
| "step Call_getContext = 1"
| "step Call_request_json = 2"
| "step (Call_schema_parse b) = 3"
| "step (Call_getEntity t i) = 4"
| "step (Call_updateEntity t i u x) = 4"
| "step (Call_deleteEntity t i u) = 4"
| "step (Call_archiveEntity t i u) = 4"
| "step (Log_info m i p) = 5"
| "step (Log_error m e i) = 5"
| "step (Call_NextResponse_json r) = 6"

text \<open>
  What a request needs for a step to be passed: a session with a truthy user id, a tenant
  context, a body that parses as JSON and satisfies the schema.
\<close>

definition auth_ok :: "env \<Rightarrow> bool" where
  "auth_ok env =
     (case getServerSession env of Inl e \<Rightarrow> False | Inr s \<Rightarrow> truthy (session_user_id s))"

definition tenant_ok :: "env \<Rightarrow> bool" where
  "tenant_ok env = (case getContext env of Inl e \<Rightarrow> False | Inr ctx \<Rightarrow> True)"

definition body_valid :: "request \<Rightarrow> bool" where
  "body_valid request =
     (case json_outcome request of
        Inl e \<Rightarrow> False
      | Inr b \<Rightarrow> (case safeParse updateEntitySchema b of Inl issues \<Rightarrow> False | Inr v \<Rightarrow> True))"

section \<open>Example collaborators and requests\<close>

definition example_session :: "session option" where
  "example_session = Some \<lparr>session_user = Some \<lparr>user_id = Some (js ''user-1'')\<rparr>\<rparr>"

definition example_entity :: entity where
  "example_entity =
     \<lparr>entity_id = js ''ent-1'', entity_fields = [(js ''name'', JStr (js ''Acme''))]\<rparr>"

text \<open>All collaborators succeed.\<close>

definition example_env :: env where
  "example_env =
     \<lparr>getServerSession = Inr example_session,
      getContext = Inr \<lparr>tenantId = js ''tenant-1''\<rparr>,
      getEntity = (\<lambda>t i. Inr example_entity),
      updateEntity = (\<lambda>t i u x. Inr example_entity),
      deleteEntity = (\<lambda>t i u. Inr ()),
      archiveEntity = (\<lambda>t i u. Inr ()),
      zod_error_message = (\<lambda>issues. js ''[]'')\<rparr>"

definition example_params :: params where
  "example_params = \<lparr>param_id = js ''ent-1''\<rparr>"

text \<open>Variations: no session, a collaborator that throws.\<close>

definition env_no_session :: env where
  "env_no_session = example_env\<lparr>getServerSession := Inr None\<rparr>"

definition env_getContext_throws :: "thrown \<Rightarrow> env" where
  "env_getContext_throws e = example_env\<lparr>getContext := Inl e\<rparr>"

definition env_getEntity_throws :: "thrown \<Rightarrow> env" where
  "env_getEntity_throws e = example_env\<lparr>getEntity := \<lambda>t i. Inl e\<rparr>"

text \<open>Requests: a JSON body, a body the parser rejects, a query string.\<close>

definition request_with_body :: "json \<Rightarrow> request" where
  "request_with_body b = \<lparr>json_outcome = Inr b, searchParams = []\<rparr>"

definition request_json_throws :: "thrown \<Rightarrow> request" where
  "request_json_throws e = \<lparr>json_outcome = Inl e, searchParams = []\<rparr>"

definition request_with_query :: "(jsstring \<times> jsstring) list \<Rightarrow> request" where
  "request_with_query q = \<lparr>json_outcome = Inr (JObj []), searchParams = q\<rparr>"

text \<open>
  The message V8 gives the \<^verbatim>\<open>SyntaxError\<close> of \<^verbatim>\<open>JSON.parse\<close> on the text
  \<^verbatim>\<open>Unauthorized\<close>: it quotes the offending token and, for a short text, the text itself.
  \<open>0x27\<close> is the apostrophe, \<open>0x22\<close> the double quote.
\<close>

definition json_syntax_error_message :: jsstring where
  "json_syntax_error_message =
     js ''Unexpected token '' @ [0x27] @ js ''U'' @ [0x27] @ js '', '' @ [0x22]
       @ js ''Unauthorized'' @ [0x22] @ js '' is not valid JSON''"

section \<open>Facts about the model\<close>

lemmas example_defs = example_env_def example_session_def example_entity_def
  example_params_def env_no_session_def env_getContext_throws_def env_getEntity_throws_def
  request_with_body_def request_json_throws_def request_with_query_def
  session_user_id_def truthy_def searchParams_get_def

lemmas handler_defs = GET_def GET_try_def GET_catch_def PATCH_def PATCH_try_def PATCH_catch_def
  DELETE_def DELETE_try_def DELETE_catch_def

lemmas schema_defs = safeParse_def updateEntitySchema_def updateEntityShape_def z_object_def
  z_optional_def z_string_def z_enum_def schema_keys_def

subsection \<open>Running the computations\<close>

lemma await_call:
  "await (call ev outcome) f tr =
     (case outcome of Inl e \<Rightarrow> (Inl e, tr @ [ev]) | Inr x \<Rightarrow> f x (tr @ [ev]))"
  by (simp add: await_def call_def split: sum.splits)

lemma await_logger:
  "await (logger_info m i p) f tr = f () (tr @ [Log_info m i p])"
  "await (logger_error m e i) f tr = f () (tr @ [Log_error m e i])"
  by (simp_all add: await_def call_def logger_info_def logger_error_def)

lemma await_parse:
  "await (parse env schema data) f tr =
     (case safeParse schema data of
        Inl issues \<Rightarrow>
          (Inl (ZodError issues (zod_error_message env issues)), tr @ [Call_schema_parse data])
      | Inr v \<Rightarrow> f v (tr @ [Call_schema_parse data]))"
  by (simp add: await_def call_def parse_def split: sum.splits)

lemma NextResponse_json_run:
  "NextResponse_json b st tr =
     (Inr \<lparr>status = st, body = b\<rparr>, tr @ [Call_NextResponse_json \<lparr>status = st, body = b\<rparr>])"
  by (simp add: NextResponse_json_def call_def)

lemmas run_simps = await_call await_logger await_parse NextResponse_json_run try_catch_def

text \<open>\<open>str_includes\<close> is the substring test.\<close>

lemma str_includes_iff: "str_includes s search \<longleftrightarrow> (\<exists>pre suf. s = pre @ search @ suf)"
  by (simp add: str_includes_def sublist_def)

subsection \<open>The schema\<close>

text \<open>Every issue a field schema raises carries the path it was given.\<close>

lemma z_string_paths: "i \<in> set (fst (z_string checks p input)) \<Longrightarrow> path i = p"
proof -
  have c: "\<And>c s. i \<in> set (string_check_issues c s p) \<Longrightarrow> path i = p"
    subgoal for c s by (cases c) (auto split: if_splits)
    done
  assume "i \<in> set (fst (z_string checks p input))"
  then show ?thesis
    by (auto simp: z_string_def dest: c split: option.splits json.splits)
qed

lemma z_enum_paths: "i \<in> set (fst (z_enum vals p input)) \<Longrightarrow> path i = p"
  by (auto simp: z_enum_def split: option.splits json.splits if_splits)

lemma opt_string_paths:
  "i \<in> set (fst (z_optional (z_string cs) p input)) \<Longrightarrow> path i = p"
  by (cases input) (auto simp: z_optional_def dest: z_string_paths)

lemma opt_enum_paths:
  "i \<in> set (fst (z_optional (z_enum vals) p input)) \<Longrightarrow> path i = p"
  by (cases input) (auto simp: z_optional_def dest: z_enum_paths)

lemma shape_paths:
  assumes "(k, schema) \<in> set updateEntityShape" and "i \<in> set (fst (schema p input))"
  shows "path i = p"
proof -
  from assms(1) consider cs where "schema = z_optional (z_string cs)"
    | vals where "schema = z_optional (z_enum vals)"
    by (auto simp: updateEntityShape_def)
  then show ?thesis
    using assms(2) by cases (auto dest: opt_string_paths opt_enum_paths)
qed

text \<open>An issue of an object comes from one of the fields of its shape.\<close>

lemma z_object_issues:
  assumes "i \<in> set (fst (z_object shape p (Some (JObj props))))"
  shows "\<exists>(k, schema) \<in> set shape. i \<in> set (fst (schema (p @ [k]) (map_of props k)))"
  using assms by (auto simp: z_object_def Let_def case_prod_beta)

lemma z_object_output_None:
  "snd (z_object shape p input) = None \<longleftrightarrow> fst (z_object shape p input) \<noteq> []"
  by (simp add: z_object_def Let_def split: option.splits json.splits)

lemma z_object_output_keys:
  assumes "snd (z_object shape p input) = Some v"
  shows "\<exists>out. v = JObj out \<and> fst ` set out \<subseteq> fst ` set shape"
proof -
  from assms obtain props where "input = Some (JObj props)"
    by (auto simp: z_object_def split: option.splits json.splits)
  with assms show ?thesis
    by (auto simp: z_object_def Let_def case_prod_beta split: if_splits option.splits) force
qed

text \<open>Properties outside the shape are never read.\<close>

lemma map_of_filter_keys:
  "k \<in> K \<Longrightarrow> map_of (filter (\<lambda>(k', v). k' \<in> K) props) k = map_of props k"
  by (induction props) auto

lemma z_object_strips:
  "z_object shape p (Some (JObj (filter (\<lambda>(k, v). k \<in> fst ` set shape) props)))
     = z_object shape p (Some (JObj props))"
proof -
  have eq: "map_of (filter (\<lambda>(k, v). k \<in> fst ` set shape) props) a = map_of props a"
    if "(a, b) \<in> set shape" for a b
    using that by (intro map_of_filter_keys) force
  have results: "map (\<lambda>(key, schema). (key, schema (p @ [key])
            (map_of (filter (\<lambda>(k, v). k \<in> fst ` set shape) props) key))) shape
      = map (\<lambda>(key, schema). (key, schema (p @ [key]) (map_of props key))) shape"
    by (rule map_cong) (auto simp: eq)
  show ?thesis
    unfolding z_object_def option.case json.case by (simp only: results)
qed

lemma safeParse_issues_nonempty:
  "safeParse updateEntitySchema b = Inl issues \<Longrightarrow> issues \<noteq> []"
  using z_object_output_None [of updateEntityShape "[]" "Some b"]
  by (auto simp: safeParse_def updateEntitySchema_def split: prod.splits option.splits if_splits)

lemma safeParse_issue_paths:
  assumes "safeParse updateEntitySchema b = Inl issues" and "i \<in> set issues"
  shows "(path i = [] \<and> (\<forall>props. b \<noteq> JObj props)) \<or> (\<exists>k \<in> set schema_keys. path i = [k])"
proof (cases "\<exists>props. b = JObj props")
  case True
  then obtain props where b: "b = JObj props" by blast
  from assms have "i \<in> set (fst (z_object updateEntityShape [] (Some (JObj props))))"
    by (auto simp: safeParse_def updateEntitySchema_def b split: prod.splits option.splits if_splits)
  from z_object_issues [OF this] obtain k schema where
    ks: "(k, schema) \<in> set updateEntityShape" and
    i: "i \<in> set (fst (schema ([] @ [k]) (map_of props k)))"
    by blast
  from shape_paths [OF ks i] have "path i = [k]" by simp
  moreover from ks have "k \<in> set schema_keys" by (force simp: schema_keys_def)
  ultimately show ?thesis by blast
next
  case False
  with assms show ?thesis
    by (cases b) (auto simp: safeParse_def updateEntitySchema_def z_object_def)
qed

lemma safeParse_output_keys:
  assumes "safeParse updateEntitySchema b = Inr v"
  shows "\<exists>out. v = JObj out \<and> set (map fst out) \<subseteq> set schema_keys"
proof -
  from assms have "snd (z_object updateEntityShape [] (Some b)) = Some v"
    by (auto simp: safeParse_def updateEntitySchema_def split: prod.splits option.splits if_splits)
  from z_object_output_keys [OF this] show ?thesis
    by (simp add: schema_keys_def)
qed

lemma safeParse_strips:
  "safeParse updateEntitySchema (JObj (filter (\<lambda>(k, v). k \<in> set schema_keys) props))
     = safeParse updateEntitySchema (JObj props)"
  by (simp add: safeParse_def updateEntitySchema_def schema_keys_def z_object_strips)

lemma safeParse_empty_name:
  "safeParse updateEntitySchema (JObj [(js ''name'', JStr (js ''''))])
     = Inl [\<lparr>code = too_small 1, path = [js ''name'']\<rparr>]"
  by (simp add: schema_defs js_def)

lemma safeParse_status_DELETED:
  "safeParse updateEntitySchema (JObj [(js ''status'', JStr (js ''DELETED''))])
     = Inl [\<lparr>code = invalid_enum_value (js ''DELETED'')
                [js ''ACTIVE'', js ''PENDING'', js ''ARCHIVED'', js ''SUSPENDED''],
             path = [js ''status'']\<rparr>]"
  by (simp add: schema_defs js_def)

lemma safeParse_legalForm_LLC:
  "safeParse updateEntitySchema (JObj [(js ''legalForm'', JStr (js ''LLC''))])
     = Inr (JObj [(js ''legalForm'', JStr (js ''LLC''))])"
  by (simp add: schema_defs js_def)

subsection \<open>The example collaborators\<close>

lemma example_session_truthy: "truthy (session_user_id example_session)"
  by (simp add: example_defs js_def)

lemma example_user_id: "the (session_user_id example_session) = js ''user-1''"
  by (simp add: example_defs)

subsection \<open>Shape of the traces\<close>

lemma GET_trace_sorted: "sorted_wrt (<) (map step (snd (GET env request ps [])))"
  by (cases "getServerSession env"; cases "getContext env")
     (auto simp: handler_defs run_simps split: sum.splits)

lemma PATCH_trace_sorted: "sorted_wrt (<) (map step (snd (PATCH env request ps [])))"
  by (cases "getServerSession env"; cases "getContext env"; cases "json_outcome request")
     (auto simp: handler_defs run_simps split: sum.splits)

lemma DELETE_trace_sorted: "sorted_wrt (<) (map step (snd (DELETE env request ps [])))"
  by (cases "getServerSession env"; cases "getContext env")
     (auto simp: handler_defs run_simps Let_def split: sum.splits)

lemma GET_guards:
  "hd (snd (GET env request ps [])) = Call_getServerSession
   \<and> (Call_getContext \<in> set (snd (GET env request ps [])) \<longrightarrow> auth_ok env)
   \<and> (domain_calls (snd (GET env request ps [])) \<noteq> [] \<longrightarrow> auth_ok env \<and> tenant_ok env)
   \<and> (\<exists>r. fst (GET env request ps []) = Inr r
          \<and> last (snd (GET env request ps [])) = Call_NextResponse_json r)"
  by (cases "getServerSession env"; cases "getContext env")
     (auto simp: handler_defs run_simps auth_ok_def tenant_ok_def domain_calls_def
      split: sum.splits)

lemma PATCH_guards:
  "hd (snd (PATCH env request ps [])) = Call_getServerSession
   \<and> (Call_getContext \<in> set (snd (PATCH env request ps [])) \<longrightarrow> auth_ok env)
   \<and> (domain_calls (snd (PATCH env request ps [])) \<noteq> [] \<longrightarrow>
        auth_ok env \<and> tenant_ok env \<and> body_valid request)
   \<and> (\<exists>r. fst (PATCH env request ps []) = Inr r
          \<and> last (snd (PATCH env request ps [])) = Call_NextResponse_json r)"
  by (cases "getServerSession env"; cases "getContext env"; cases "json_outcome request")
     (auto simp: handler_defs run_simps auth_ok_def tenant_ok_def body_valid_def domain_calls_def
      split: sum.splits)

lemma DELETE_guards:
  "hd (snd (DELETE env request ps [])) = Call_getServerSession
   \<and> (Call_getContext \<in> set (snd (DELETE env request ps [])) \<longrightarrow> auth_ok env)
   \<and> (domain_calls (snd (DELETE env request ps [])) \<noteq> [] \<longrightarrow> auth_ok env \<and> tenant_ok env)
   \<and> (\<exists>r. fst (DELETE env request ps []) = Inr r
          \<and> last (snd (DELETE env request ps [])) = Call_NextResponse_json r)"
  by (cases "getServerSession env"; cases "getContext env")
     (auto simp: handler_defs run_simps auth_ok_def tenant_ok_def domain_calls_def Let_def
      split: sum.splits)

section \<open>Requests without a session\<close>

text \<open>
  Claim C2. When the session lookup returns and what it returns has no truthy user id
  (no session, no user, no id, or the empty id), each of GET, PATCH and DELETE responds
  with status 401 and the body \<^verbatim>\<open>{ error: "Unauthorized" }\<close>.
\<close>

theorem C2_unauthenticated_401:
  assumes "getServerSession env = Inr s" and "\<not> truthy (session_user_id s)"
  shows "fst (GET env request ps []) = Inr \<lparr>status = 401, body = Error_body (js ''Unauthorized'')\<rparr>
       \<and> fst (PATCH env request ps []) = Inr \<lparr>status = 401, body = Error_body (js ''Unauthorized'')\<rparr>
       \<and> fst (DELETE env request ps []) = Inr \<lparr>status = 401, body = Error_body (js ''Unauthorized'')\<rparr>"
  using assms by (simp add: handler_defs run_simps)

text \<open>The lookup returns \<^verbatim>\<open>null\<close>.\<close>

theorem C2_unauthenticated_401_witness:
  "getServerSession env_no_session = Inr None
   \<and> \<not> truthy (session_user_id None)
   \<and> fst (GET env_no_session (request_with_body (JObj [])) example_params [])
       = Inr \<lparr>status = 401, body = Error_body (js ''Unauthorized'')\<rparr>
   \<and> fst (PATCH env_no_session (request_with_body (JObj [])) example_params [])
       = Inr \<lparr>status = 401, body = Error_body (js ''Unauthorized'')\<rparr>
   \<and> fst (DELETE env_no_session (request_with_body (JObj [])) example_params [])
       = Inr \<lparr>status = 401, body = Error_body (js ''Unauthorized'')\<rparr>"
proof -
  have h1: "getServerSession env_no_session = Inr None"
    by (simp add: env_no_session_def)
  have h2: "\<not> truthy (session_user_id None)"
    by (simp add: truthy_def session_user_id_def)
  show ?thesis
    using h1 h2
      C2_unauthenticated_401 [OF h1 h2, of "request_with_body (JObj [])" example_params]
    by simp
qed

section \<open>Failures of the entity lookup\<close>

text \<open>
  Claim C1 says that GET answers 404 whenever the entity service reports the entity
  missing or out of reach, whatever the message of the error. The handler has nothing but
  the message to go by: an error of the service that says the entity was not found, in
  words that do not contain \<^verbatim>\<open>Unauthorized\<close>, is answered with 500.
\<close>

theorem C1_counterexample:
  "fst (GET (env_getEntity_throws (JsError (js ''Entity not found'')))
          (request_with_body (JObj [])) example_params [])
     = Inr \<lparr>status = 500, body = Error_body (js ''Internal server error'')\<rparr>
   \<and> fst (GET (env_getEntity_throws (JsError (js ''Entity not found'')))
          (request_with_body (JObj [])) example_params [])
     \<noteq> Inr \<lparr>status = 404, body = Error_body (js ''Not found or unauthorized'')\<rparr>"
  by (simp add: handler_defs run_simps example_defs unauthorized_marker_def str_includes_def
      sublist_Cons_right js_def)

text \<open>
  Claim C1, amended. For a GET with a session and a tenant context, when \<^verbatim>\<open>getEntity\<close>
  throws an \<^verbatim>\<open>Error\<close>: if the message contains \<^verbatim>\<open>Unauthorized\<close>, whatever comes before
  and after it, the response is 404 with \<^verbatim>\<open>{ error: "Not found or unauthorized" }\<close>;
  if the message does not contain it, the response is 500.
\<close>

theorem C1_GET_marker_decides_404:
  assumes "getServerSession env = Inr s" and "truthy (session_user_id s)"
    and "getContext env = Inr ctx"
    and "getEntity env (tenantId ctx) (param_id ps) = Inl error"
    and "instanceof_Error error"
  shows "(message error = pre @ js ''Unauthorized'' @ suf \<longrightarrow>
            fst (GET env request ps [])
              = Inr \<lparr>status = 404, body = Error_body (js ''Not found or unauthorized'')\<rparr>)
       \<and> (\<not> str_includes (message error) (js ''Unauthorized'') \<longrightarrow>
            fst (GET env request ps [])
              = Inr \<lparr>status = 500, body = Error_body (js ''Internal server error'')\<rparr>)"
  using assms
  by (auto simp add: handler_defs run_simps unauthorized_marker_def str_includes_iff)

theorem C1_GET_marker_decides_404_witness:
  "getServerSession (env_getEntity_throws (JsError (js ''Unauthorized: other tenant'')))
     = Inr example_session
   \<and> truthy (session_user_id example_session)
   \<and> getContext (env_getEntity_throws (JsError (js ''Unauthorized: other tenant'')))
     = Inr \<lparr>tenantId = js ''tenant-1''\<rparr>
   \<and> getEntity (env_getEntity_throws (JsError (js ''Unauthorized: other tenant'')))
       (tenantId \<lparr>tenantId = js ''tenant-1''\<rparr>) (param_id example_params)
     = Inl (JsError (js ''Unauthorized: other tenant''))
   \<and> instanceof_Error (JsError (js ''Unauthorized: other tenant''))
   \<and> message (JsError (js ''Unauthorized: other tenant''))
     = [] @ js ''Unauthorized'' @ js '': other tenant''
   \<and> fst (GET (env_getEntity_throws (JsError (js ''Unauthorized: other tenant'')))
          (request_with_body (JObj [])) example_params [])
     = Inr \<lparr>status = 404, body = Error_body (js ''Not found or unauthorized'')\<rparr>"
proof -
  have h1: "getServerSession (env_getEntity_throws (JsError (js ''Unauthorized: other tenant'')))
     = Inr example_session"
    and h3: "getContext (env_getEntity_throws (JsError (js ''Unauthorized: other tenant'')))
     = Inr \<lparr>tenantId = js ''tenant-1''\<rparr>"
    and h4: "getEntity (env_getEntity_throws (JsError (js ''Unauthorized: other tenant'')))
       (tenantId \<lparr>tenantId = js ''tenant-1''\<rparr>) (param_id example_params)
     = Inl (JsError (js ''Unauthorized: other tenant''))"
    by (simp_all add: env_getEntity_throws_def example_env_def)
  have h5: "instanceof_Error (JsError (js ''Unauthorized: other tenant''))"
    by simp
  have m: "message (JsError (js ''Unauthorized: other tenant''))
     = [] @ js ''Unauthorized'' @ js '': other tenant''"
    by (simp add: js_def)
  from C1_GET_marker_decides_404 [OF h1 example_session_truthy h3 h4 h5,
      of "[]" "js '': other tenant''" "request_with_body (JObj [])"] m
  have "fst (GET (env_getEntity_throws (JsError (js ''Unauthorized: other tenant'')))
          (request_with_body (JObj [])) example_params [])
     = Inr \<lparr>status = 404, body = Error_body (js ''Not found or unauthorized'')\<rparr>"
    by blast
  with h1 example_session_truthy h3 h4 h5 m show ?thesis by blast
qed

section \<open>Bodies that violate the schema\<close>

text \<open>
  Claim C3. For a PATCH with a session and a tenant context whose body parses as JSON
  and violates the update schema, the response is 400 with
  \<^verbatim>\<open>{ error: "Validation error", details }\<close>, where \<open>details\<close> are the issues of the
  validation: there is at least one, and each names a field of the schema by its path
  (or, when the body is not an object at all, has the empty path). The calls made are the
  session lookup, the tenant resolution, the reading of the body and the validation:
  \<^verbatim>\<open>updateEntity\<close> is not called. The body \<^verbatim>\<open>{ name: "" }\<close> raises \<open>too_small\<close> on
  \<open>name\<close>, the body \<^verbatim>\<open>{ status: "DELETED" }\<close> raises \<open>invalid_enum_value\<close> on
  \<open>status\<close>.
\<close>

theorem C3_PATCH_invalid_body_400:
  assumes "getServerSession env = Inr s" and "truthy (session_user_id s)"
    and "getContext env = Inr ctx"
    and "json_outcome request = Inr b"
    and "safeParse updateEntitySchema b = Inl issues"
  shows "PATCH env request ps [] =
           (Inr \<lparr>status = 400, body = Validation_body (js ''Validation error'') issues\<rparr>,
            [Call_getServerSession, Call_getContext, Call_request_json, Call_schema_parse b,
             Call_NextResponse_json
               \<lparr>status = 400, body = Validation_body (js ''Validation error'') issues\<rparr>])
       \<and> domain_calls (snd (PATCH env request ps [])) = []
       \<and> issues \<noteq> []
       \<and> (\<forall>i \<in> set issues.
             (path i = [] \<and> (\<forall>props. b \<noteq> JObj props)) \<or> (\<exists>k \<in> set schema_keys. path i = [k]))
       \<and> safeParse updateEntitySchema (JObj [(js ''name'', JStr (js ''''))])
             = Inl [\<lparr>code = too_small 1, path = [js ''name'']\<rparr>]
       \<and> safeParse updateEntitySchema (JObj [(js ''status'', JStr (js ''DELETED''))])
             = Inl [\<lparr>code = invalid_enum_value (js ''DELETED'')
                        [js ''ACTIVE'', js ''PENDING'', js ''ARCHIVED'', js ''SUSPENDED''],
                     path = [js ''status'']\<rparr>]"
proof -
  have run: "PATCH env request ps [] =
           (Inr \<lparr>status = 400, body = Validation_body (js ''Validation error'') issues\<rparr>,
            [Call_getServerSession, Call_getContext, Call_request_json, Call_schema_parse b,
             Call_NextResponse_json
               \<lparr>status = 400, body = Validation_body (js ''Validation error'') issues\<rparr>])"
    using assms by (simp add: handler_defs run_simps)
  have calls: "domain_calls (snd (PATCH env request ps [])) = []"
    by (simp add: run domain_calls_def)
  have nonempty: "issues \<noteq> []"
    using assms(5) by (rule safeParse_issues_nonempty)
  have paths: "\<forall>i \<in> set issues.
      (path i = [] \<and> (\<forall>props. b \<noteq> JObj props)) \<or> (\<exists>k \<in> set schema_keys. path i = [k])"
    using safeParse_issue_paths [OF assms(5)] by blast
  from run calls nonempty paths safeParse_empty_name safeParse_status_DELETED
  show ?thesis by blast
qed

text \<open>The two bodies of the claim.\<close>

theorem C3_PATCH_invalid_body_400_witness:
  "getServerSession example_env = Inr example_session
   \<and> truthy (session_user_id example_session)
   \<and> getContext example_env = Inr \<lparr>tenantId = js ''tenant-1''\<rparr>
   \<and> json_outcome (request_with_body (JObj [(js ''name'', JStr (js ''''))]))
       = Inr (JObj [(js ''name'', JStr (js ''''))])
   \<and> safeParse updateEntitySchema (JObj [(js ''name'', JStr (js ''''))])
       = Inl [\<lparr>code = too_small 1, path = [js ''name'']\<rparr>]
   \<and> fst (PATCH example_env (request_with_body (JObj [(js ''name'', JStr (js ''''))]))
            example_params [])
       = Inr \<lparr>status = 400,
              body = Validation_body (js ''Validation error'')
                       [\<lparr>code = too_small 1, path = [js ''name'']\<rparr>]\<rparr>
   \<and> domain_calls (snd (PATCH example_env
          (request_with_body (JObj [(js ''name'', JStr (js ''''))])) example_params [])) = []
   \<and> status (projr (fst (PATCH example_env
          (request_with_body (JObj [(js ''status'', JStr (js ''DELETED''))])) example_params [])))
       = 400
   \<and> domain_calls (snd (PATCH example_env
          (request_with_body (JObj [(js ''status'', JStr (js ''DELETED''))])) example_params [])) = []"
proof -
  have h1: "getServerSession example_env = Inr example_session"
    and h3: "getContext example_env = Inr \<lparr>tenantId = js ''tenant-1''\<rparr>"
    by (simp_all add: example_env_def)
  have h4: "json_outcome (request_with_body b) = Inr b" for b
    by (simp add: request_with_body_def)
  note name = C3_PATCH_invalid_body_400 [OF h1 example_session_truthy h3 h4 safeParse_empty_name,
      of example_params]
  note stat = C3_PATCH_invalid_body_400 [OF h1 example_session_truthy h3 h4
      safeParse_status_DELETED, of example_params]
  from name have n1: "fst (PATCH example_env (request_with_body (JObj [(js ''name'', JStr (js ''''))]))
            example_params [])
       = Inr \<lparr>status = 400,
              body = Validation_body (js ''Validation error'')
                       [\<lparr>code = too_small 1, path = [js ''name'']\<rparr>]\<rparr>"
    by simp
  from name have n2: "domain_calls (snd (PATCH example_env
          (request_with_body (JObj [(js ''name'', JStr (js ''''))])) example_params [])) = []"
    by blast
  from stat have s1: "status (projr (fst (PATCH example_env
          (request_with_body (JObj [(js ''status'', JStr (js ''DELETED''))])) example_params [])))
       = 400"
    by simp
  from stat have s2: "domain_calls (snd (PATCH example_env
          (request_with_body (JObj [(js ''status'', JStr (js ''DELETED''))])) example_params [])) = []"
    by blast
  from h1 example_session_truthy h3 h4 safeParse_empty_name n1 n2 s1 s2
  show ?thesis by blast
qed

section \<open>Deleting and archiving\<close>

text \<open>
  Claim C4. For a DELETE with a session and a tenant context: when
  \<^verbatim>\<open>searchParams.get("permanent")\<close> is \<^verbatim>\<open>"true"\<close>, the only call to the entity service is
  \<^verbatim>\<open>deleteEntity\<close> (with the tenant, the id of the route and the user id), and when it
  returns the response is 200 with the message \<^verbatim>\<open>Entity deleted\<close>; when the parameter is
  absent, the only call is \<^verbatim>\<open>archiveEntity\<close>, and when it returns the response is 200
  with the message \<^verbatim>\<open>Entity archived\<close>.
\<close>

theorem C4_DELETE_permanent_or_archive:
  assumes "getServerSession env = Inr s" and "truthy (session_user_id s)"
    and "getContext env = Inr ctx"
  shows "(searchParams_get request (js ''permanent'') = Some (js ''true'') \<longrightarrow>
            domain_calls (snd (DELETE env request ps []))
              = [Call_deleteEntity (tenantId ctx) (param_id ps) (the (session_user_id s))]
          \<and> (deleteEntity env (tenantId ctx) (param_id ps) (the (session_user_id s)) = Inr () \<longrightarrow>
               fst (DELETE env request ps [])
                 = Inr \<lparr>status = 200, body = Message_body True (js ''Entity deleted'')\<rparr>))
       \<and> (searchParams_get request (js ''permanent'') = None \<longrightarrow>
            domain_calls (snd (DELETE env request ps []))
              = [Call_archiveEntity (tenantId ctx) (param_id ps) (the (session_user_id s))]
          \<and> (archiveEntity env (tenantId ctx) (param_id ps) (the (session_user_id s)) = Inr () \<longrightarrow>
               fst (DELETE env request ps [])
                 = Inr \<lparr>status = 200, body = Message_body True (js ''Entity archived'')\<rparr>))"
proof -
  have del: "domain_calls (snd (DELETE env request ps []))
              = [Call_deleteEntity (tenantId ctx) (param_id ps) (the (session_user_id s))]"
    if "searchParams_get request (js ''permanent'') = Some (js ''true'')"
    using assms that
    by (cases "deleteEntity env (tenantId ctx) (param_id ps) (the (session_user_id s))")
       (simp_all add: handler_defs run_simps domain_calls_def)
  have del_ok: "fst (DELETE env request ps [])
                 = Inr \<lparr>status = 200, body = Message_body True (js ''Entity deleted'')\<rparr>"
    if "searchParams_get request (js ''permanent'') = Some (js ''true'')"
      and "deleteEntity env (tenantId ctx) (param_id ps) (the (session_user_id s)) = Inr ()"
    using assms that by (simp add: handler_defs run_simps)
  have arch: "domain_calls (snd (DELETE env request ps []))
              = [Call_archiveEntity (tenantId ctx) (param_id ps) (the (session_user_id s))]"
    if "searchParams_get request (js ''permanent'') = None"
    using assms that
    by (cases "archiveEntity env (tenantId ctx) (param_id ps) (the (session_user_id s))")
       (simp_all add: handler_defs run_simps domain_calls_def)
  have arch_ok: "fst (DELETE env request ps [])
                 = Inr \<lparr>status = 200, body = Message_body True (js ''Entity archived'')\<rparr>"
    if "searchParams_get request (js ''permanent'') = None"
      and "archiveEntity env (tenantId ctx) (param_id ps) (the (session_user_id s)) = Inr ()"
    using assms that by (simp add: handler_defs run_simps)
  from del del_ok arch arch_ok show ?thesis by blast
qed

text \<open>\<^verbatim>\<open>?permanent=true\<close>, and no query at all.\<close>

theorem C4_DELETE_permanent_or_archive_witness:
  "getServerSession example_env = Inr example_session
   \<and> truthy (session_user_id example_session)
   \<and> getContext example_env = Inr \<lparr>tenantId = js ''tenant-1''\<rparr>
   \<and> searchParams_get (request_with_query [(js ''permanent'', js ''true'')]) (js ''permanent'')
       = Some (js ''true'')
   \<and> deleteEntity example_env (js ''tenant-1'') (js ''ent-1'') (js ''user-1'') = Inr ()
   \<and> domain_calls (snd (DELETE example_env
          (request_with_query [(js ''permanent'', js ''true'')]) example_params []))
       = [Call_deleteEntity (js ''tenant-1'') (js ''ent-1'') (js ''user-1'')]
   \<and> fst (DELETE example_env (request_with_query [(js ''permanent'', js ''true'')])
            example_params [])
       = Inr \<lparr>status = 200, body = Message_body True (js ''Entity deleted'')\<rparr>
   \<and> searchParams_get (request_with_query []) (js ''permanent'') = None
   \<and> archiveEntity example_env (js ''tenant-1'') (js ''ent-1'') (js ''user-1'') = Inr ()
   \<and> domain_calls (snd (DELETE example_env (request_with_query []) example_params []))
       = [Call_archiveEntity (js ''tenant-1'') (js ''ent-1'') (js ''user-1'')]
   \<and> fst (DELETE example_env (request_with_query []) example_params [])
       = Inr \<lparr>status = 200, body = Message_body True (js ''Entity archived'')\<rparr>"
proof -
  have h1: "getServerSession example_env = Inr example_session"
    and h3: "getContext example_env = Inr \<lparr>tenantId = js ''tenant-1''\<rparr>"
    and d: "deleteEntity example_env (js ''tenant-1'') (js ''ent-1'') (js ''user-1'') = Inr ()"
    and a: "archiveEntity example_env (js ''tenant-1'') (js ''ent-1'') (js ''user-1'') = Inr ()"
    by (simp_all add: example_env_def)
  have q1: "searchParams_get (request_with_query [(js ''permanent'', js ''true'')])
              (js ''permanent'') = Some (js ''true'')"
    and q2: "searchParams_get (request_with_query []) (js ''permanent'') = None"
    by (simp_all add: searchParams_get_def request_with_query_def)
  note t = C4_DELETE_permanent_or_archive [OF h1 example_session_truthy h3,
      of _ example_params, unfolded example_user_id]
  from t [of "request_with_query [(js ''permanent'', js ''true'')]"] q1 d
  have r1: "domain_calls (snd (DELETE example_env
          (request_with_query [(js ''permanent'', js ''true'')]) example_params []))
       = [Call_deleteEntity (js ''tenant-1'') (js ''ent-1'') (js ''user-1'')]
     \<and> fst (DELETE example_env (request_with_query [(js ''permanent'', js ''true'')])
            example_params [])
       = Inr \<lparr>status = 200, body = Message_body True (js ''Entity deleted'')\<rparr>"
    by (simp add: example_params_def)
  from t [of "request_with_query []"] q2 a
  have r2: "domain_calls (snd (DELETE example_env (request_with_query []) example_params []))
       = [Call_archiveEntity (js ''tenant-1'') (js ''ent-1'') (js ''user-1'')]
     \<and> fst (DELETE example_env (request_with_query []) example_params [])
       = Inr \<lparr>status = 200, body = Message_body True (js ''Entity archived'')\<rparr>"
    by (simp add: example_params_def)
  from h1 example_session_truthy h3 q1 q2 d a r1 r2 show ?thesis by blast
qed

text \<open>
  Claim C8. For a DELETE with a session and a tenant context, the one call to the entity
  service is \<^verbatim>\<open>deleteEntity\<close> if \<^verbatim>\<open>searchParams.get("permanent")\<close> is exactly the string
  \<^verbatim>\<open>true\<close>, and \<^verbatim>\<open>archiveEntity\<close> in every other case: another value, such as
  \<^verbatim>\<open>TRUE\<close>, \<^verbatim>\<open>1\<close> or the empty string, or no such parameter.
\<close>

theorem C8_DELETE_hard_delete_iff_true:
  assumes "getServerSession env = Inr s" and "truthy (session_user_id s)"
    and "getContext env = Inr ctx"
  shows "domain_calls (snd (DELETE env request ps [])) =
           (if searchParams_get request (js ''permanent'') = Some (js ''true'')
            then [Call_deleteEntity (tenantId ctx) (param_id ps) (the (session_user_id s))]
            else [Call_archiveEntity (tenantId ctx) (param_id ps) (the (session_user_id s))])"
proof (cases "searchParams_get request (js ''permanent'') = Some (js ''true'')")
  case True
  with assms show ?thesis
    by (cases "deleteEntity env (tenantId ctx) (param_id ps) (the (session_user_id s))")
       (simp_all add: handler_defs run_simps domain_calls_def)
next
  case False
  with assms show ?thesis
    by (cases "archiveEntity env (tenantId ctx) (param_id ps) (the (session_user_id s))")
       (simp_all add: handler_defs run_simps domain_calls_def)
qed

text \<open>The values \<^verbatim>\<open>TRUE\<close>, \<^verbatim>\<open>1\<close> and the empty string archive; \<^verbatim>\<open>true\<close> deletes.\<close>

theorem C8_DELETE_hard_delete_iff_true_witness:
  "getServerSession example_env = Inr example_session
   \<and> truthy (session_user_id example_session)
   \<and> getContext example_env = Inr \<lparr>tenantId = js ''tenant-1''\<rparr>
   \<and> domain_calls (snd (DELETE example_env
          (request_with_query [(js ''permanent'', js ''TRUE'')]) example_params []))
       = [Call_archiveEntity (js ''tenant-1'') (js ''ent-1'') (js ''user-1'')]
   \<and> domain_calls (snd (DELETE example_env
          (request_with_query [(js ''permanent'', js ''1'')]) example_params []))
       = [Call_archiveEntity (js ''tenant-1'') (js ''ent-1'') (js ''user-1'')]
   \<and> domain_calls (snd (DELETE example_env
          (request_with_query [(js ''permanent'', js '''')]) example_params []))
       = [Call_archiveEntity (js ''tenant-1'') (js ''ent-1'') (js ''user-1'')]
   \<and> domain_calls (snd (DELETE example_env
          (request_with_query [(js ''permanent'', js ''true'')]) example_params []))
       = [Call_deleteEntity (js ''tenant-1'') (js ''ent-1'') (js ''user-1'')]"
proof -
  have h1: "getServerSession example_env = Inr example_session"
    and h3: "getContext example_env = Inr \<lparr>tenantId = js ''tenant-1''\<rparr>"
    by (simp_all add: example_env_def)
  note t = C8_DELETE_hard_delete_iff_true [OF h1 example_session_truthy h3,
      of _ example_params, unfolded example_user_id]
  have q: "searchParams_get (request_with_query [(js ''permanent'', v)]) (js ''permanent'') = Some v"
    for v
    by (simp add: searchParams_get_def request_with_query_def)
  have ne: "js ''TRUE'' \<noteq> js ''true''" "js ''1'' \<noteq> js ''true''" "js '''' \<noteq> js ''true''"
    by (simp_all add: js_def)
  from t [of "request_with_query [(js ''permanent'', js ''TRUE'')]"]
    t [of "request_with_query [(js ''permanent'', js ''1'')]"]
    t [of "request_with_query [(js ''permanent'', js '''')]"]
    t [of "request_with_query [(js ''permanent'', js ''true'')]"]
    h1 example_session_truthy h3 ne
  show ?thesis by (simp add: q example_params_def)
qed

section \<open>Successful reads and updates\<close>

text \<open>
  Claim C6. For a request with a session and a tenant context: when \<^verbatim>\<open>getEntity\<close>
  returns \<open>e\<close>, GET responds 200 with \<^verbatim>\<open>{ success: true, data: e }\<close>. For a PATCH with
  the body \<^verbatim>\<open>{ legalForm: "LLC" }\<close>, the one call to the entity service is \<^verbatim>\<open>updateEntity\<close>
  with an input object that has the property \<open>legalForm\<close> and no other; and whenever
  the body is valid and \<^verbatim>\<open>updateEntity\<close> returns \<open>u\<close>, PATCH responds 200 with
  \<^verbatim>\<open>{ success: true, data: u }\<close>.
\<close>

theorem C6_success_envelopes:
  assumes "getServerSession env = Inr s" and "truthy (session_user_id s)"
    and "getContext env = Inr ctx"
  shows "(getEntity env (tenantId ctx) (param_id ps) = Inr e \<longrightarrow>
            fst (GET env request ps []) = Inr \<lparr>status = 200, body = Data_body True e\<rparr>)
       \<and> (json_outcome request = Inr (JObj [(js ''legalForm'', JStr (js ''LLC''))]) \<longrightarrow>
            domain_calls (snd (PATCH env request ps []))
              = [Call_updateEntity (tenantId ctx) (param_id ps) (the (session_user_id s))
                   (JObj [(js ''legalForm'', JStr (js ''LLC''))])]
          \<and> (updateEntity env (tenantId ctx) (param_id ps) (the (session_user_id s))
                   (JObj [(js ''legalForm'', JStr (js ''LLC''))]) = Inr u \<longrightarrow>
               fst (PATCH env request ps []) = Inr \<lparr>status = 200, body = Data_body True u\<rparr>))
       \<and> (json_outcome request = Inr b \<and> safeParse updateEntitySchema b = Inr input
           \<and> updateEntity env (tenantId ctx) (param_id ps) (the (session_user_id s)) input
               = Inr u' \<longrightarrow>
            fst (PATCH env request ps []) = Inr \<lparr>status = 200, body = Data_body True u'\<rparr>)"
proof -
  have get: "fst (GET env request ps []) = Inr \<lparr>status = 200, body = Data_body True e\<rparr>"
    if "getEntity env (tenantId ctx) (param_id ps) = Inr e"
    using assms that by (simp add: handler_defs run_simps)
  have patch: "fst (PATCH env request ps []) = Inr \<lparr>status = 200, body = Data_body True v\<rparr>"
    if "json_outcome request = Inr c" and "safeParse updateEntitySchema c = Inr i"
      and "updateEntity env (tenantId ctx) (param_id ps) (the (session_user_id s)) i = Inr v"
    for c i v
    using assms that by (simp add: handler_defs run_simps)
  have call: "domain_calls (snd (PATCH env request ps []))
              = [Call_updateEntity (tenantId ctx) (param_id ps) (the (session_user_id s)) i]"
    if "json_outcome request = Inr c" and "safeParse updateEntitySchema c = Inr i"
    for c i
    using assms that
    by (cases "updateEntity env (tenantId ctx) (param_id ps) (the (session_user_id s)) i")
       (simp_all add: handler_defs run_simps domain_calls_def)
  from get patch [OF _ safeParse_legalForm_LLC] patch call [OF _ safeParse_legalForm_LLC]
  show ?thesis by blast
qed

theorem C6_success_envelopes_witness:
  "getServerSession example_env = Inr example_session
   \<and> truthy (session_user_id example_session)
   \<and> getContext example_env = Inr \<lparr>tenantId = js ''tenant-1''\<rparr>
   \<and> getEntity example_env (js ''tenant-1'') (js ''ent-1'') = Inr example_entity
   \<and> fst (GET example_env (request_with_body (JObj [])) example_params [])
       = Inr \<lparr>status = 200, body = Data_body True example_entity\<rparr>
   \<and> json_outcome (request_with_body (JObj [(js ''legalForm'', JStr (js ''LLC''))]))
       = Inr (JObj [(js ''legalForm'', JStr (js ''LLC''))])
   \<and> updateEntity example_env (js ''tenant-1'') (js ''ent-1'') (js ''user-1'')
        (JObj [(js ''legalForm'', JStr (js ''LLC''))]) = Inr example_entity
   \<and> domain_calls (snd (PATCH example_env
          (request_with_body (JObj [(js ''legalForm'', JStr (js ''LLC''))])) example_params []))
       = [Call_updateEntity (js ''tenant-1'') (js ''ent-1'') (js ''user-1'')
            (JObj [(js ''legalForm'', JStr (js ''LLC''))])]
   \<and> fst (PATCH example_env
          (request_with_body (JObj [(js ''legalForm'', JStr (js ''LLC''))])) example_params [])
       = Inr \<lparr>status = 200, body = Data_body True example_entity\<rparr>"
proof -
  have h1: "getServerSession example_env = Inr example_session"
    and h3: "getContext example_env = Inr \<lparr>tenantId = js ''tenant-1''\<rparr>"
    and g: "getEntity example_env (js ''tenant-1'') (js ''ent-1'') = Inr example_entity"
    and u: "updateEntity example_env (js ''tenant-1'') (js ''ent-1'') (js ''user-1'')
        (JObj [(js ''legalForm'', JStr (js ''LLC''))]) = Inr example_entity"
    by (simp_all add: example_env_def)
  have j: "json_outcome (request_with_body b) = Inr b" for b
    by (simp add: request_with_body_def)
  note t = C6_success_envelopes [OF h1 example_session_truthy h3,
      of example_params _ _ _ _ _ _, unfolded example_user_id]
  from t [of example_entity "request_with_body (JObj [])"] g
  have r1: "fst (GET example_env (request_with_body (JObj [])) example_params [])
       = Inr \<lparr>status = 200, body = Data_body True example_entity\<rparr>"
    by (simp add: example_params_def)
  from t [of _ "request_with_body (JObj [(js ''legalForm'', JStr (js ''LLC''))])" example_entity]
    j u
  have r2: "domain_calls (snd (PATCH example_env
          (request_with_body (JObj [(js ''legalForm'', JStr (js ''LLC''))])) example_params []))
       = [Call_updateEntity (js ''tenant-1'') (js ''ent-1'') (js ''user-1'')
            (JObj [(js ''legalForm'', JStr (js ''LLC''))])]
     \<and> fst (PATCH example_env
          (request_with_body (JObj [(js ''legalForm'', JStr (js ''LLC''))])) example_params [])
       = Inr \<lparr>status = 200, body = Data_body True example_entity\<rparr>"
    by (simp add: example_params_def)
  from h1 example_session_truthy h3 g j u r1 r2 show ?thesis by blast
qed

text \<open>
  Claim C10. For a PATCH with a session and a tenant context whose body is a JSON object:
  if the object restricted to the keys of the schema (\<open>name\<close>, \<open>legalForm\<close>,
  \<open>status\<close>, \<open>activityCode\<close>) is valid, then so is the whole object, with the same
  output; the output is an object whose keys are all keys of the schema; and the one call
  to the entity service is \<^verbatim>\<open>updateEntity\<close> with that output. The other keys of the body
  raise no issue and are not passed on.
\<close>

theorem C10_PATCH_unknown_keys_stripped:
  assumes "getServerSession env = Inr s" and "truthy (session_user_id s)"
    and "getContext env = Inr ctx"
    and "json_outcome request = Inr (JObj props)"
    and "safeParse updateEntitySchema (JObj (filter (\<lambda>(k, v). k \<in> set schema_keys) props))
           = Inr input"
  shows "safeParse updateEntitySchema (JObj props) = Inr input
       \<and> (\<exists>out. input = JObj out \<and> set (map fst out) \<subseteq> set schema_keys)
       \<and> domain_calls (snd (PATCH env request ps []))
           = [Call_updateEntity (tenantId ctx) (param_id ps) (the (session_user_id s)) input]"
proof -
  have ok: "safeParse updateEntitySchema (JObj props) = Inr input"
    using assms(5) by (simp only: safeParse_strips)
  have keys: "\<exists>out. input = JObj out \<and> set (map fst out) \<subseteq> set schema_keys"
    using ok by (rule safeParse_output_keys)
  have call: "domain_calls (snd (PATCH env request ps []))
           = [Call_updateEntity (tenantId ctx) (param_id ps) (the (session_user_id s)) input]"
    using assms(1-4) ok
    by (cases "updateEntity env (tenantId ctx) (param_id ps) (the (session_user_id s)) input")
       (simp_all add: handler_defs run_simps domain_calls_def)
  from ok keys call show ?thesis by blast
qed

text \<open>A body with \<open>isAdmin\<close> and \<open>tenantId\<close> beside \<open>legalForm\<close>.\<close>

theorem C10_PATCH_unknown_keys_stripped_witness:
  "getServerSession example_env = Inr example_session
   \<and> truthy (session_user_id example_session)
   \<and> getContext example_env = Inr \<lparr>tenantId = js ''tenant-1''\<rparr>
   \<and> safeParse updateEntitySchema
        (JObj (filter (\<lambda>(k, v). k \<in> set schema_keys)
           [(js ''isAdmin'', JBool True), (js ''legalForm'', JStr (js ''LLC'')),
            (js ''tenantId'', JStr (js ''tenant-2''))]))
       = Inr (JObj [(js ''legalForm'', JStr (js ''LLC''))])
   \<and> domain_calls (snd (PATCH example_env
          (request_with_body (JObj
             [(js ''isAdmin'', JBool True), (js ''legalForm'', JStr (js ''LLC'')),
              (js ''tenantId'', JStr (js ''tenant-2''))])) example_params []))
       = [Call_updateEntity (js ''tenant-1'') (js ''ent-1'') (js ''user-1'')
            (JObj [(js ''legalForm'', JStr (js ''LLC''))])]"
proof -
  have h1: "getServerSession example_env = Inr example_session"
    and h3: "getContext example_env = Inr \<lparr>tenantId = js ''tenant-1''\<rparr>"
    by (simp_all add: example_env_def)
  have j: "json_outcome (request_with_body (JObj props)) = Inr (JObj props)" for props
    by (simp add: request_with_body_def)
  have f: "filter (\<lambda>(k, v). k \<in> set schema_keys)
           [(js ''isAdmin'', JBool True), (js ''legalForm'', JStr (js ''LLC'')),
            (js ''tenantId'', JStr (js ''tenant-2''))]
         = [(js ''legalForm'', JStr (js ''LLC''))]"
    by (simp add: schema_keys_def updateEntityShape_def js_def)
  have h5: "safeParse updateEntitySchema
        (JObj (filter (\<lambda>(k, v). k \<in> set schema_keys)
           [(js ''isAdmin'', JBool True), (js ''legalForm'', JStr (js ''LLC'')),
            (js ''tenantId'', JStr (js ''tenant-2''))]))
       = Inr (JObj [(js ''legalForm'', JStr (js ''LLC''))])"
    by (simp only: f safeParse_legalForm_LLC)
  from C10_PATCH_unknown_keys_stripped [OF h1 example_session_truthy h3 j h5,
      of example_params, unfolded example_user_id]
  have r: "domain_calls (snd (PATCH example_env
          (request_with_body (JObj
             [(js ''isAdmin'', JBool True), (js ''legalForm'', JStr (js ''LLC'')),
              (js ''tenantId'', JStr (js ''tenant-2''))])) example_params []))
       = [Call_updateEntity (js ''tenant-1'') (js ''ent-1'') (js ''user-1'')
            (JObj [(js ''legalForm'', JStr (js ''LLC''))])]"
    by (simp add: example_params_def)
  from h1 example_session_truthy h3 h5 r show ?thesis by blast
qed

section \<open>Bodies that are not JSON\<close>

text \<open>
  Claim C9 says that a PATCH whose body is not valid JSON is always answered with 500.
  The \<^verbatim>\<open>SyntaxError\<close> of the body parser goes through the same \<^verbatim>\<open>catch\<close> as every
  other error, and its message may quote the body: for the body \<^verbatim>\<open>Unauthorized\<close> the
  message contains \<^verbatim>\<open>Unauthorized\<close> and the response is 404.
\<close>

theorem C9_counterexample:
  "fst (PATCH example_env (request_json_throws (JsError json_syntax_error_message))
          example_params [])
     = Inr \<lparr>status = 404, body = Error_body (js ''Not found or unauthorized'')\<rparr>
   \<and> fst (PATCH example_env (request_json_throws (JsError json_syntax_error_message))
          example_params [])
     \<noteq> Inr \<lparr>status = 500, body = Error_body (js ''Internal server error'')\<rparr>"
  by (simp add: handler_defs run_simps example_defs unauthorized_marker_def str_includes_def
      sublist_Cons_right json_syntax_error_message_def js_def)

text \<open>
  Claim C9, amended. For a PATCH with a session and a tenant context whose body parser
  throws an \<^verbatim>\<open>Error\<close> that is not a \<^verbatim>\<open>ZodError\<close> (a \<^verbatim>\<open>SyntaxError\<close> is one): the
  response is 500 with \<^verbatim>\<open>{ error: "Internal server error" }\<close>, after the error was
  logged, unless the message of the error contains \<^verbatim>\<open>Unauthorized\<close>, in which case it is
  404 with \<^verbatim>\<open>{ error: "Not found or unauthorized" }\<close>. It is never 400, and neither
  the validation nor \<^verbatim>\<open>updateEntity\<close> is called.
\<close>

theorem C9_PATCH_body_parse_failure:
  assumes "getServerSession env = Inr s" and "truthy (session_user_id s)"
    and "getContext env = Inr ctx"
    and "json_outcome request = Inl (JsError m)"
  shows "PATCH env request ps [] =
           (if str_includes m (js ''Unauthorized'') then
              (Inr \<lparr>status = 404, body = Error_body (js ''Not found or unauthorized'')\<rparr>,
               [Call_getServerSession, Call_getContext, Call_request_json,
                Call_NextResponse_json
                  \<lparr>status = 404, body = Error_body (js ''Not found or unauthorized'')\<rparr>])
            else
              (Inr \<lparr>status = 500, body = Error_body (js ''Internal server error'')\<rparr>,
               [Call_getServerSession, Call_getContext, Call_request_json,
                Log_error (js ''Error updating entity'') (JsError m) (param_id ps),
                Call_NextResponse_json
                  \<lparr>status = 500, body = Error_body (js ''Internal server error'')\<rparr>]))
       \<and> (\<forall>b. Call_schema_parse b \<notin> set (snd (PATCH env request ps [])))
       \<and> domain_calls (snd (PATCH env request ps [])) = []"
  using assms by (simp add: handler_defs run_simps unauthorized_marker_def domain_calls_def)

text \<open>A truncated body.\<close>

theorem C9_PATCH_body_parse_failure_witness:
  "getServerSession example_env = Inr example_session
   \<and> truthy (session_user_id example_session)
   \<and> getContext example_env = Inr \<lparr>tenantId = js ''tenant-1''\<rparr>
   \<and> json_outcome (request_json_throws (JsError (js ''Unexpected end of JSON input'')))
       = Inl (JsError (js ''Unexpected end of JSON input''))
   \<and> \<not> str_includes (js ''Unexpected end of JSON input'') (js ''Unauthorized'')
   \<and> PATCH example_env (request_json_throws (JsError (js ''Unexpected end of JSON input'')))
        example_params []
       = (Inr \<lparr>status = 500, body = Error_body (js ''Internal server error'')\<rparr>,
          [Call_getServerSession, Call_getContext, Call_request_json,
           Log_error (js ''Error updating entity'')
             (JsError (js ''Unexpected end of JSON input'')) (js ''ent-1''),
           Call_NextResponse_json
             \<lparr>status = 500, body = Error_body (js ''Internal server error'')\<rparr>])"
proof -
  have h1: "getServerSession example_env = Inr example_session"
    and h3: "getContext example_env = Inr \<lparr>tenantId = js ''tenant-1''\<rparr>"
    by (simp_all add: example_env_def)
  have h4: "json_outcome (request_json_throws (JsError (js ''Unexpected end of JSON input'')))
       = Inl (JsError (js ''Unexpected end of JSON input''))"
    by (simp add: request_json_throws_def)
  have n: "\<not> str_includes (js ''Unexpected end of JSON input'') (js ''Unauthorized'')"
    by (simp add: str_includes_def sublist_Cons_right js_def)
  from C9_PATCH_body_parse_failure [OF h1 example_session_truthy h3 h4, of example_params] n
  have r: "PATCH example_env (request_json_throws (JsError (js ''Unexpected end of JSON input'')))
        example_params []
       = (Inr \<lparr>status = 500, body = Error_body (js ''Internal server error'')\<rparr>,
          [Call_getServerSession, Call_getContext, Call_request_json,
           Log_error (js ''Error updating entity'')
             (JsError (js ''Unexpected end of JSON input'')) (js ''ent-1''),
           Call_NextResponse_json
             \<lparr>status = 500, body = Error_body (js ''Internal server error'')\<rparr>])"
    by (simp add: example_params_def)
  from h1 example_session_truthy h3 h4 n r show ?thesis by blast
qed

section \<open>Failures that are not classified\<close>

text \<open>
  Claim C5 says that every failure other than a missing session, a validation failure and
  an error of the entity service that carries the marker is answered with 500. The
  \<^verbatim>\<open>catch\<close> blocks do not know where an error comes from: an error of the tenant
  resolution whose message contains \<^verbatim>\<open>Unauthorized\<close> is answered with 404, though the
  entity service was never called.
\<close>

theorem C5_counterexample:
  "GET_try (env_getContext_throws (JsError (js ''Unauthorized: no tenant in context'')))
      (request_with_body (JObj [])) example_params []
     = (Inl (JsError (js ''Unauthorized: no tenant in context'')),
        [Call_getServerSession, Call_getContext])
   \<and> GET (env_getContext_throws (JsError (js ''Unauthorized: no tenant in context'')))
      (request_with_body (JObj [])) example_params []
     = (Inr \<lparr>status = 404, body = Error_body (js ''Not found or unauthorized'')\<rparr>,
        [Call_getServerSession, Call_getContext,
         Call_NextResponse_json
           \<lparr>status = 404, body = Error_body (js ''Not found or unauthorized'')\<rparr>])"
  by (simp add: handler_defs run_simps example_defs unauthorized_marker_def str_includes_def
      sublist_Cons_right js_def)

text \<open>
  Claim C5, amended. When the \<^verbatim>\<open>try\<close> block of a handler throws, whichever call
  threw, and the value thrown does not pass the marker test (it is not an \<^verbatim>\<open>Error\<close>
  whose message contains \<^verbatim>\<open>Unauthorized\<close>) and, for PATCH, is not a \<^verbatim>\<open>ZodError\<close>, the
  handler logs the value at error level and responds 500 with
  \<^verbatim>\<open>{ error: "Internal server error" }\<close>. The body is that constant; the value thrown is
  in the log call, and the calls made before it are calls to collaborators, none to the
  logger.
\<close>

theorem C5_unclassified_failure_500:
  "(GET_try env request ps [] = (Inl error, tr) \<and> \<not> unauthorized_marker error \<longrightarrow>
      GET env request ps [] =
        (Inr \<lparr>status = 500, body = Error_body (js ''Internal server error'')\<rparr>,
         tr @ [Log_error (js ''Error fetching entity'') error (param_id ps),
               Call_NextResponse_json
                 \<lparr>status = 500, body = Error_body (js ''Internal server error'')\<rparr>])
      \<and> (\<forall>ev \<in> set tr. step ev < 5))
 \<and> (PATCH_try env request ps [] = (Inl error, tr) \<and> \<not> instanceof_ZodError error
      \<and> \<not> unauthorized_marker error \<longrightarrow>
      PATCH env request ps [] =
        (Inr \<lparr>status = 500, body = Error_body (js ''Internal server error'')\<rparr>,
         tr @ [Log_error (js ''Error updating entity'') error (param_id ps),
               Call_NextResponse_json
                 \<lparr>status = 500, body = Error_body (js ''Internal server error'')\<rparr>])
      \<and> (\<forall>ev \<in> set tr. step ev < 5))
 \<and> (DELETE_try env request ps [] = (Inl error, tr) \<and> \<not> unauthorized_marker error \<longrightarrow>
      DELETE env request ps [] =
        (Inr \<lparr>status = 500, body = Error_body (js ''Internal server error'')\<rparr>,
         tr @ [Log_error (js ''Error deleting entity'') error (param_id ps),
               Call_NextResponse_json
                 \<lparr>status = 500, body = Error_body (js ''Internal server error'')\<rparr>])
      \<and> (\<forall>ev \<in> set tr. step ev < 5))"
proof -
  have get: "GET env request ps [] =
        (Inr \<lparr>status = 500, body = Error_body (js ''Internal server error'')\<rparr>,
         tr @ [Log_error (js ''Error fetching entity'') error (param_id ps),
               Call_NextResponse_json
                 \<lparr>status = 500, body = Error_body (js ''Internal server error'')\<rparr>])"
    if "GET_try env request ps [] = (Inl error, tr)" and "\<not> unauthorized_marker error"
    using that by (simp add: GET_def GET_catch_def run_simps)
  have patch: "PATCH env request ps [] =
        (Inr \<lparr>status = 500, body = Error_body (js ''Internal server error'')\<rparr>,
         tr @ [Log_error (js ''Error updating entity'') error (param_id ps),
               Call_NextResponse_json
                 \<lparr>status = 500, body = Error_body (js ''Internal server error'')\<rparr>])"
    if "PATCH_try env request ps [] = (Inl error, tr)" and "\<not> instanceof_ZodError error"
      and "\<not> unauthorized_marker error"
    using that by (simp add: PATCH_def PATCH_catch_def run_simps)
  have delete: "DELETE env request ps [] =
        (Inr \<lparr>status = 500, body = Error_body (js ''Internal server error'')\<rparr>,
         tr @ [Log_error (js ''Error deleting entity'') error (param_id ps),
               Call_NextResponse_json
                 \<lparr>status = 500, body = Error_body (js ''Internal server error'')\<rparr>])"
    if "DELETE_try env request ps [] = (Inl error, tr)" and "\<not> unauthorized_marker error"
    using that by (simp add: DELETE_def DELETE_catch_def run_simps)
  have get_tr: "\<forall>ev \<in> set tr. step ev < 5" if "GET_try env request ps [] = (Inl error, tr)"
    using that
    by (cases "getServerSession env"; cases "getContext env")
       (auto simp: GET_try_def run_simps split: sum.splits if_splits)
  have patch_tr: "\<forall>ev \<in> set tr. step ev < 5" if "PATCH_try env request ps [] = (Inl error, tr)"
    using that
    by (cases "getServerSession env"; cases "getContext env"; cases "json_outcome request")
       (auto simp: PATCH_try_def run_simps split: sum.splits if_splits)
  have delete_tr: "\<forall>ev \<in> set tr. step ev < 5" if "DELETE_try env request ps [] = (Inl error, tr)"
    using that
    by (cases "getServerSession env"; cases "getContext env")
       (auto simp: DELETE_try_def run_simps Let_def split: sum.splits if_splits)
  from get patch delete get_tr patch_tr delete_tr show ?thesis by blast
qed

text \<open>The entity service loses its database.\<close>

theorem C5_unclassified_failure_500_witness:
  "GET_try (env_getEntity_throws (JsError (js ''connection refused'')))
      (request_with_body (JObj [])) example_params []
     = (Inl (JsError (js ''connection refused'')),
        [Call_getServerSession, Call_getContext, Call_getEntity (js ''tenant-1'') (js ''ent-1'')])
   \<and> \<not> unauthorized_marker (JsError (js ''connection refused''))
   \<and> GET (env_getEntity_throws (JsError (js ''connection refused'')))
      (request_with_body (JObj [])) example_params []
     = (Inr \<lparr>status = 500, body = Error_body (js ''Internal server error'')\<rparr>,
        [Call_getServerSession, Call_getContext, Call_getEntity (js ''tenant-1'') (js ''ent-1''),
         Log_error (js ''Error fetching entity'') (JsError (js ''connection refused''))
           (js ''ent-1''),
         Call_NextResponse_json
           \<lparr>status = 500, body = Error_body (js ''Internal server error'')\<rparr>])"
proof -
  have t: "GET_try (env_getEntity_throws (JsError (js ''connection refused'')))
      (request_with_body (JObj [])) example_params []
     = (Inl (JsError (js ''connection refused'')),
        [Call_getServerSession, Call_getContext, Call_getEntity (js ''tenant-1'') (js ''ent-1'')])"
    by (simp add: GET_try_def run_simps example_defs js_def)
  have n: "\<not> unauthorized_marker (JsError (js ''connection refused''))"
    by (simp add: unauthorized_marker_def str_includes_def sublist_Cons_right js_def)
  from C5_unclassified_failure_500 [of "env_getEntity_throws (JsError (js ''connection refused''))"
      "request_with_body (JObj [])" example_params "JsError (js ''connection refused'')"
      "[Call_getServerSession, Call_getContext, Call_getEntity (js ''tenant-1'') (js ''ent-1'')]"]
    t n
  have r: "GET (env_getEntity_throws (JsError (js ''connection refused'')))
      (request_with_body (JObj [])) example_params []
     = (Inr \<lparr>status = 500, body = Error_body (js ''Internal server error'')\<rparr>,
        [Call_getServerSession, Call_getContext, Call_getEntity (js ''tenant-1'') (js ''ent-1''),
         Log_error (js ''Error fetching entity'') (JsError (js ''connection refused''))
           (js ''ent-1''),
         Call_NextResponse_json
           \<lparr>status = 500, body = Error_body (js ''Internal server error'')\<rparr>])"
    by (simp add: example_params_def)
  from t n r show ?thesis by blast
qed

section \<open>Order of the steps\<close>

text \<open>
  Claim C7. In every run of a handler the steps of the calls strictly increase along the
  trace: session lookup, tenant resolution, reading of the body, validation, call to the
  entity service, logging, construction of the response; so each step happens at most
  once and in that order. The session lookup is the first call. The tenant resolution is
  only called when the session has a truthy user id. The entity service is only called
  when moreover the tenant resolution returned and, for PATCH, the body was read and
  passed the validation. The last call constructs the response the handler resolves to.
\<close>

theorem C7_steps_in_order:
  "sorted_wrt (<) (map step (snd (GET env request ps [])))
   \<and> sorted_wrt (<) (map step (snd (PATCH env request ps [])))
   \<and> sorted_wrt (<) (map step (snd (DELETE env request ps [])))
   \<and> hd (snd (GET env request ps [])) = Call_getServerSession
   \<and> hd (snd (PATCH env request ps [])) = Call_getServerSession
   \<and> hd (snd (DELETE env request ps [])) = Call_getServerSession
   \<and> (Call_getContext \<in> set (snd (GET env request ps [])) \<longrightarrow> auth_ok env)
   \<and> (Call_getContext \<in> set (snd (PATCH env request ps [])) \<longrightarrow> auth_ok env)
   \<and> (Call_getContext \<in> set (snd (DELETE env request ps [])) \<longrightarrow> auth_ok env)
   \<and> (domain_calls (snd (GET env request ps [])) \<noteq> [] \<longrightarrow> auth_ok env \<and> tenant_ok env)
   \<and> (domain_calls (snd (PATCH env request ps [])) \<noteq> [] \<longrightarrow>
        auth_ok env \<and> tenant_ok env \<and> body_valid request)
   \<and> (domain_calls (snd (DELETE env request ps [])) \<noteq> [] \<longrightarrow> auth_ok env \<and> tenant_ok env)
   \<and> (\<exists>r. fst (GET env request ps []) = Inr r
          \<and> last (snd (GET env request ps [])) = Call_NextResponse_json r)
   \<and> (\<exists>r. fst (PATCH env request ps []) = Inr r
          \<and> last (snd (PATCH env request ps [])) = Call_NextResponse_json r)
   \<and> (\<exists>r. fst (DELETE env request ps []) = Inr r
          \<and> last (snd (DELETE env request ps [])) = Call_NextResponse_json r)"
  using GET_trace_sorted [of env request ps] PATCH_trace_sorted [of env request ps]
    DELETE_trace_sorted [of env request ps] GET_guards [of env request ps]
    PATCH_guards [of env request ps] DELETE_guards [of env request ps]
  by blast

text \<open>A PATCH that goes through every step, and a GET without a session.\<close>

theorem C7_steps_in_order_witness:
  "Call_getContext \<in> set (snd (PATCH example_env (request_with_body (JObj [])) example_params []))
   \<and> domain_calls (snd (PATCH example_env (request_with_body (JObj [])) example_params [])) \<noteq> []
   \<and> auth_ok example_env \<and> tenant_ok example_env \<and> body_valid (request_with_body (JObj []))
   \<and> map step (snd (PATCH example_env (request_with_body (JObj [])) example_params []))
       = [0, 1, 2, 3, 4, 5, 6]
   \<and> sorted_wrt (<)
       (map step (snd (PATCH example_env (request_with_body (JObj [])) example_params [])))
   \<and> \<not> auth_ok env_no_session
   \<and> Call_getContext \<notin> set (snd (GET env_no_session (request_with_body (JObj []))
                                     example_params []))"
proof -
  have run: "snd (PATCH example_env (request_with_body (JObj [])) example_params []) =
      [Call_getServerSession, Call_getContext, Call_request_json, Call_schema_parse (JObj []),
       Call_updateEntity (js ''tenant-1'') (js ''ent-1'') (js ''user-1'') (JObj []),
       Log_info (js ''Entity updated successfully'') (js ''ent-1'') None,
       Call_NextResponse_json \<lparr>status = 200, body = Data_body True example_entity\<rparr>]"
    by (simp add: handler_defs run_simps example_defs schema_defs js_def)
  have ctx: "Call_getContext
      \<in> set (snd (PATCH example_env (request_with_body (JObj [])) example_params []))"
    and dom: "domain_calls
      (snd (PATCH example_env (request_with_body (JObj [])) example_params [])) \<noteq> []"
    and steps: "map step (snd (PATCH example_env (request_with_body (JObj [])) example_params []))
                  = [0, 1, 2, 3, 4, 5, 6]"
    by (simp_all add: run domain_calls_def)
  have no: "\<not> auth_ok env_no_session"
    by (simp add: auth_ok_def example_defs)
  note c7 = C7_steps_in_order [of example_env "request_with_body (JObj [])" example_params]
  note c7' = C7_steps_in_order [of env_no_session "request_with_body (JObj [])" example_params]
  from c7 ctx have auth: "auth_ok example_env" by blast
  from c7 dom have rest: "tenant_ok example_env \<and> body_valid (request_with_body (JObj []))"
    by blast
  from c7 have sorted: "sorted_wrt (<)
      (map step (snd (PATCH example_env (request_with_body (JObj [])) example_params [])))"
    by blast
  from c7' no have gone: "Call_getContext
      \<notin> set (snd (GET env_no_session (request_with_body (JObj [])) example_params []))"
    by blast
  from ctx dom auth rest steps sorted no gone show ?thesis by blast
qed

end
